theory Spec2Isabelle
  imports Complex_Main
begin

section \<open>Data model\<close>

text \<open>
  The bot (\<^verbatim>\<open>mainbot.py\<close>) computes with Python floats. They are modelled as real
  numbers, so every result below is about exact arithmetic: rounding, NaN and the
  infinities of IEEE doubles are outside the model.

  Exceptions are values: a computation that may raise returns \<open>py_error + 'a\<close>, with
  \<open>Inl\<close> for the exception.
\<close>

datatype py_error =
  KeyError | IndexError | ValueError | ZeroDivisionError | AttributeError | TypeError

definition bind_err :: "py_error + 'a \<Rightarrow> ('a \<Rightarrow> py_error + 'b) \<Rightarrow> py_error + 'b" where
  "bind_err m f = (case m of Inl e \<Rightarrow> Inl e | Inr x \<Rightarrow> f x)"

text \<open>
  A pandas Series of floats is a list; a DataFrame is a map from column names to
  columns. \<^verbatim>\<open>df[name]\<close> raises KeyError for a missing column; \<^verbatim>\<open>s.iloc[i]\<close>
  counts a negative position from the end and raises IndexError out of range.
\<close>

type_synonym series = "real list"
type_synonym dataframe = "string \<rightharpoonup> series"

definition getitem :: "dataframe \<Rightarrow> string \<Rightarrow> py_error + series" where
  "getitem df name = (case df name of None \<Rightarrow> Inl KeyError | Some s \<Rightarrow> Inr s)"

definition iloc :: "series \<Rightarrow> int \<Rightarrow> py_error + real" where
  "iloc s i =
     (let pos = (if i < 0 then i + int (length s) else i)
      in if pos < 0 \<or> int (length s) \<le> pos then Inl IndexError else Inr (s ! nat pos))"

section \<open>The exponential moving average\<close>

text \<open>
  Modelled from the spec: pandas' \<^verbatim>\<open>Series.ewm(span=window, adjust=False).mean()\<close> is
  library code outside the repository. Following the spec's words (smoothing factor
  \<open>2 / (window + 1)\<close>, seeded from the first value, no bias adjustment) and the pandas
  documentation of \<^verbatim>\<open>adjust=False\<close>, the mean is computed in one pass that carries
  the previous output: \<open>y\<^sub>0 = x\<^sub>0\<close>, \<open>y\<^sub>t = (1 - \<alpha>) * y\<^sub>t\<^sub>-\<^sub>1 + \<alpha> * x\<^sub>t\<close>. pandas
  refuses a span below 1 with ValueError.
\<close>

fun ewm_from :: "real \<Rightarrow> real \<Rightarrow> series \<Rightarrow> series" where
  "ewm_from \<alpha> prev [] = []"
| "ewm_from \<alpha> prev (x # xs) = (let y = (1 - \<alpha>) * prev + \<alpha> * x in y # ewm_from \<alpha> y xs)"

fun ewm_mean :: "real \<Rightarrow> series \<Rightarrow> series" where
  "ewm_mean \<alpha> [] = []"
| "ewm_mean \<alpha> (x # xs) = x # ewm_from \<alpha> x xs"

definition span_alpha :: "real \<Rightarrow> real" where
  "span_alpha w = 2 / (w + 1)"

definition ewm_span_mean :: "real \<Rightarrow> series \<Rightarrow> py_error + series" where
  "ewm_span_mean w s =
     (if w < 1 then Inl ValueError else Inr (ewm_mean (span_alpha w) s))"

text \<open>\<^verbatim>\<open>calculate_ema(df, window)\<close>: the EMA of the \<^verbatim>\<open>close\<close> column.\<close>

definition calculate_ema :: "dataframe \<Rightarrow> real \<Rightarrow> py_error + series" where
  "calculate_ema df window = bind_err (getitem df ''close'') (ewm_span_mean window)"

text \<open>
  The recurrence as claim C2 words it, by bar index: \<open>e\<^sub>0 = c\<^sub>0\<close> and
  \<open>e\<^sub>t = a * c\<^sub>t + (1 - a) * e\<^sub>t\<^sub>-\<^sub>1\<close>.
\<close>

fun ema_recurrence :: "real \<Rightarrow> series \<Rightarrow> nat \<Rightarrow> real" where
  "ema_recurrence a c 0 = c ! 0"
| "ema_recurrence a c (Suc t) = a * c ! Suc t + (1 - a) * ema_recurrence a c t"

section \<open>The signal calculator\<close>

text \<open>
  \<^verbatim>\<open>df[name].iloc[i]\<close>, a comparison of two such reads, and Python's \<^verbatim>\<open>and\<close>, which
  evaluates its right operand only when the left one is true.
\<close>

definition at_row :: "dataframe \<Rightarrow> string \<Rightarrow> int \<Rightarrow> py_error + real" where
  "at_row df name i = bind_err (getitem df name) (\<lambda>s. iloc s i)"

definition compare :: "(real \<Rightarrow> real \<Rightarrow> bool) \<Rightarrow> py_error + real \<Rightarrow> py_error + real \<Rightarrow> py_error + bool" where
  "compare rel a b = bind_err a (\<lambda>x. bind_err b (\<lambda>y. Inr (rel x y)))"

definition py_and :: "py_error + bool \<Rightarrow> py_error + bool \<Rightarrow> py_error + bool" where
  "py_and a b = bind_err a (\<lambda>x. if x then b else Inr False)"

text \<open>
  \<^verbatim>\<open>get_signals(df)\<close> assigns the two EMA columns to the frame it was given and then
  returns \<^verbatim>\<open>'buy'\<close>, \<^verbatim>\<open>'sell'\<close> or \<^verbatim>\<open>None\<close>. The model returns the frame as the call
  leaves it together with the result; an exception leaves the frame as it was when it
  was raised.
\<close>

definition get_signals :: "dataframe \<Rightarrow> dataframe \<times> (py_error + string option)" where
  "get_signals df =
     (case calculate_ema df 50 of
        Inl e \<Rightarrow> (df, Inl e)
      | Inr e50 \<Rightarrow>
          let df1 = df(''ema_50'' \<mapsto> e50) in
          (case calculate_ema df1 200 of
             Inl e \<Rightarrow> (df1, Inl e)
           | Inr e200 \<Rightarrow>
               let df2 = df1(''ema_200'' \<mapsto> e200) in
               (df2,
                bind_err
                  (py_and
                    (compare (\<lambda>x y. x > y) (at_row df2 ''ema_50'' (-1)) (at_row df2 ''ema_200'' (-1)))
                    (compare (\<lambda>x y. x \<le> y) (at_row df2 ''ema_50'' (-2)) (at_row df2 ''ema_200'' (-2))))
                  (\<lambda>up.
                     if up then Inr (Some ''buy'')
                     else
                       bind_err
                         (py_and
                           (compare (\<lambda>x y. x < y) (at_row df2 ''ema_50'' (-1)) (at_row df2 ''ema_200'' (-1)))
                           (compare (\<lambda>x y. x \<ge> y) (at_row df2 ''ema_50'' (-2)) (at_row df2 ''ema_200'' (-2))))
                         (\<lambda>down. if down then Inr (Some ''sell'') else Inr None)))))"

text \<open>
  The two averages \<^verbatim>\<open>get_signals\<close> compares, as series over the bars of a closing-price
  sequence: the values \<^verbatim>\<open>calculate_ema\<close> returns for the windows 50 and 200.
\<close>

definition fast_ema :: "series \<Rightarrow> series" where
  "fast_ema c = ewm_mean (span_alpha 50) c"

definition slow_ema :: "series \<Rightarrow> series" where
  "slow_ema c = ewm_mean (span_alpha 200) c"

text \<open>
  Bar \<open>k\<close> is the bar at which the fast average flips above (below) the slow one: it is
  above (below) at \<open>k\<close> and at no earlier bar.
\<close>

definition flips_above_at :: "series \<Rightarrow> nat \<Rightarrow> bool" where
  "flips_above_at c k \<longleftrightarrow>
     k < length c \<and> fast_ema c ! k > slow_ema c ! k \<and>
     list_all (\<lambda>j. fast_ema c ! j \<le> slow_ema c ! j) [0..<k]"

definition flips_below_at :: "series \<Rightarrow> nat \<Rightarrow> bool" where
  "flips_below_at c k \<longleftrightarrow>
     k < length c \<and> fast_ema c ! k < slow_ema c ! k \<and>
     list_all (\<lambda>j. fast_ema c ! j \<ge> slow_ema c ! j) [0..<k]"

definition nonincreasing :: "series \<Rightarrow> bool" where
  "nonincreasing c = sorted_wrt (\<lambda>x y. x \<ge> y) c"

section \<open>Position sizing and risk levels\<close>

text \<open>
  The configuration read from the environment at import time, with the defaults of
  the source. The keyword defaults of the functions below are these values; the model
  passes them as arguments.
\<close>

record config =
  SYMBOL :: string
  MAX_POSITIONS :: int
  RISK_PERCENT :: real
  STOP_LOSS_PERCENT :: real
  TAKE_PROFIT_PERCENT :: real

definition default_config :: config where
  "default_config =
     \<lparr>SYMBOL = ''EURUSD'', MAX_POSITIONS = 3, RISK_PERCENT = 1,
      STOP_LOSS_PERCENT = 0.02, TAKE_PROFIT_PERCENT = 0.04\<rparr>"

definition calculate_position_size :: "real \<Rightarrow> real \<Rightarrow> real" where
  "calculate_position_size account_balance risk_percent =
     account_balance * (risk_percent / 100)"

definition set_stop_loss_and_take_profit :: "real \<Rightarrow> string \<Rightarrow> real \<Rightarrow> real \<Rightarrow> real \<times> real" where
  "set_stop_loss_and_take_profit entry_price direction stop_loss_pct take_profit_pct =
     (if direction = ''buy''
      then (entry_price * (1 - stop_loss_pct), entry_price * (1 + take_profit_pct))
      else (entry_price * (1 + stop_loss_pct), entry_price * (1 - take_profit_pct)))"

section \<open>The trading terminal\<close>

text \<open>
  The MetaTrader5 module is an external collaborator. What it answers during one pass
  of the control loop is a parameter of the model (\<open>terminal\<close>); what the bot does to
  it and to the log is a trace of events, in program order.
\<close>

record rate =
  rate_time :: real
  rate_open :: real
  rate_high :: real
  rate_low :: real
  rate_close :: real
  tick_volume :: real
  spread :: real
  real_volume :: real

record tick =
  ask :: real
  bid :: real

record account =
  balance :: real

record position =
  ticket :: nat
  volume :: real
  price_open :: real
  profit :: real

record order_result =
  retcode :: nat
  comment :: string

definition TRADE_RETCODE_DONE :: nat where
  "TRADE_RETCODE_DONE = 10009"

datatype order_type = ORDER_TYPE_BUY | ORDER_TYPE_SELL

text \<open>
  The two request dictionaries of the source: a market order (symbol, volume, type,
  price, sl, tp, deviation, magic, comment; the filling mode is always IOC) and a
  stop-loss modification (position ticket, sl).
\<close>

datatype request =
  TRADE_ACTION_DEAL string real order_type real real real nat nat string
| TRADE_ACTION_SLTP nat real

record time_of_day =
  hour :: nat
  minute :: nat
  second :: nat
  microsecond :: nat

record terminal =
  now :: time_of_day
  account_info :: "account option"
  copy_rates_from_pos :: "string \<Rightarrow> nat \<Rightarrow> nat \<Rightarrow> rate list option"
  positions_get_symbols :: "position list option"
  symbol_info_tick :: "tick option"
  order_send :: "request \<Rightarrow> order_result option"
  positions_get :: "position list option"

datatype level = INFO | WARNING | ERROR

datatype message =
  Trade_execution_failed nat
| Trade_executed string
| Error_executing_trade py_error
| News_not_implemented
| Failed_to_fetch_rates string
| Failed_to_move_stop_loss nat nat
| Stop_loss_moved nat
| Failed_to_get_account_info
| Main_loop_error py_error

datatype event =
  Log level message
| Call_account_info
| Call_copy_rates string nat nat
| Call_positions_get_symbols
| Call_symbol_info_tick string
| Call_order_send request
| Call_positions_get string
| Sleep nat

text \<open>An effectful computation: the events it caused, and its result or exception.\<close>

type_synonym 'a io = "event list \<times> (py_error + 'a)"

definition io_bind :: "'a io \<Rightarrow> ('a \<Rightarrow> 'b io) \<Rightarrow> 'b io" where
  "io_bind m f =
     (case m of
        (ev, Inl e) \<Rightarrow> (ev, Inl e)
      | (ev, Inr x) \<Rightarrow> (case f x of (ev', r) \<Rightarrow> (ev @ ev', r)))"

definition requests_sent :: "event list \<Rightarrow> request list" where
  "requests_sent ev = concat (map (\<lambda>e. case e of Call_order_send r \<Rightarrow> [r] | _ \<Rightarrow> []) ev)"

section \<open>Operations of the control loop\<close>

text \<open>
  \<^verbatim>\<open>str.capitalize()\<close> on ASCII text: the first character in upper case, the others in
  lower case.
\<close>

definition ascii_upper :: "char \<Rightarrow> char" where
  "ascii_upper c =
     (let n = (of_char c :: nat) in if 97 \<le> n \<and> n \<le> 122 then char_of (n - 32) else c)"

definition ascii_lower :: "char \<Rightarrow> char" where
  "ascii_lower c =
     (let n = (of_char c :: nat) in if 65 \<le> n \<and> n \<le> 90 then char_of (n + 32) else c)"

fun capitalize :: "string \<Rightarrow> string" where
  "capitalize [] = []"
| "capitalize (c # cs) = ascii_upper c # map ascii_lower cs"

text \<open>
  \<^verbatim>\<open>trade\<close> catches every exception of its body, logs it and returns \<^verbatim>\<open>None\<close>. The tick
  is read once, in the branch of the conditional expression that is taken.
\<close>

definition trade :: "config \<Rightarrow> terminal \<Rightarrow> string \<Rightarrow> string \<Rightarrow> real \<Rightarrow> event list \<times> order_result option" where
  "trade cfg t symbol direction account_balance =
     (let lot_size = calculate_position_size account_balance (RISK_PERCENT cfg) in
      case symbol_info_tick t of
        None \<Rightarrow>
          ([Call_symbol_info_tick symbol, Log ERROR (Error_executing_trade AttributeError)], None)
      | Some tk \<Rightarrow>
          let price = (if direction = ''buy'' then ask tk else bid tk);
              (sl, tp) = set_stop_loss_and_take_profit price direction
                           (STOP_LOSS_PERCENT cfg) (TAKE_PROFIT_PERCENT cfg);
              req = TRADE_ACTION_DEAL symbol lot_size
                      (if direction = ''buy'' then ORDER_TYPE_BUY else ORDER_TYPE_SELL)
                      price sl tp 10 123456 (''EMA '' @ capitalize direction)
          in
          (case order_send t req of
             None \<Rightarrow>
               ([Call_symbol_info_tick symbol, Call_order_send req,
                 Log ERROR (Error_executing_trade AttributeError)], None)
           | Some result \<Rightarrow>
               if retcode result \<noteq> TRADE_RETCODE_DONE
               then ([Call_symbol_info_tick symbol, Call_order_send req,
                      Log ERROR (Trade_execution_failed (retcode result))], None)
               else ([Call_symbol_info_tick symbol, Call_order_send req,
                      Log INFO (Trade_executed (comment result))], Some result)))"

text \<open>\<^verbatim>\<open>len(None)\<close> raises TypeError when the terminal answers \<^verbatim>\<open>None\<close>.\<close>

definition max_open_positions :: "terminal \<Rightarrow> int \<Rightarrow> bool io" where
  "max_open_positions t max_trades =
     (case positions_get_symbols t of
        None \<Rightarrow> ([Call_positions_get_symbols], Inl TypeError)
      | Some positions \<Rightarrow> ([Call_positions_get_symbols], Inr (int (length positions) < max_trades)))"

text \<open>
  \<^verbatim>\<open>datetime.now(TIMEZONE).time()\<close> is the field \<open>now\<close> of the terminal: the wall-clock
  time of day in the configured timezone. Python orders \<^verbatim>\<open>time\<close> values as the tuples
  (hour, minute, second, microsecond).
\<close>

definition time_le :: "time_of_day \<Rightarrow> time_of_day \<Rightarrow> bool" where
  "time_le a b \<longleftrightarrow>
     hour a < hour b \<or>
     (hour a = hour b \<and>
       (minute a < minute b \<or>
        (minute a = minute b \<and>
          (second a < second b \<or>
           (second a = second b \<and> microsecond a \<le> microsecond b)))))"

definition dt_time :: "nat \<Rightarrow> nat \<Rightarrow> time_of_day" where
  "dt_time h m = \<lparr>hour = h, minute = m, second = 0, microsecond = 0\<rparr>"

definition is_within_trading_hours :: "time_of_day \<Rightarrow> bool" where
  "is_within_trading_hours now_local =
     (let start = dt_time 8 0; end_time = dt_time 12 0
      in time_le start now_local \<and> time_le now_local end_time)"

definition check_major_news_events :: "bool io" where
  "check_major_news_events = ([Log WARNING News_not_implemented], Inr True)"

text \<open>
  \<^verbatim>\<open>pd.DataFrame(rates)\<close>: one column per field of the rate records. The conversion of the
  \<^verbatim>\<open>time\<close> column to timestamps changes its representation only.
\<close>

definition DataFrame :: "rate list \<Rightarrow> dataframe" where
  "DataFrame rates =
     [''time'' \<mapsto> map rate_time rates, ''open'' \<mapsto> map rate_open rates,
      ''high'' \<mapsto> map rate_high rates, ''low'' \<mapsto> map rate_low rates,
      ''close'' \<mapsto> map rate_close rates, ''tick_volume'' \<mapsto> map tick_volume rates,
      ''spread'' \<mapsto> map spread rates, ''real_volume'' \<mapsto> map real_volume rates]"

definition get_rates :: "terminal \<Rightarrow> string \<Rightarrow> nat \<Rightarrow> event list \<times> dataframe option" where
  "get_rates t symbol number_of_data =
     (case copy_rates_from_pos t symbol 0 number_of_data of
        None \<Rightarrow>
          ([Call_copy_rates symbol 0 number_of_data, Log ERROR (Failed_to_fetch_rates symbol)], None)
      | Some rates \<Rightarrow>
          if length rates = 0
          then ([Call_copy_rates symbol 0 number_of_data, Log ERROR (Failed_to_fetch_rates symbol)],
                None)
          else ([Call_copy_rates symbol 0 number_of_data], Some (DataFrame rates)))"

text \<open>
  \<^verbatim>\<open>adjust_stop_loss\<close>: a float division by zero raises ZeroDivisionError; a \<^verbatim>\<open>None\<close>
  answer of \<^verbatim>\<open>order_send\<close> raises AttributeError at \<^verbatim>\<open>result.retcode\<close>.
\<close>

definition adjust_stop_loss :: "terminal \<Rightarrow> position \<Rightarrow> unit io" where
  "adjust_stop_loss t p =
     (if volume p = 0 then ([], Inl ZeroDivisionError)
      else if profit p / volume p \<ge> price_open p * 0.02
      then
        (let req = TRADE_ACTION_SLTP (ticket p) (price_open p) in
         case order_send t req of
           None \<Rightarrow> ([Call_order_send req], Inl AttributeError)
         | Some result \<Rightarrow>
             if retcode result \<noteq> TRADE_RETCODE_DONE
             then ([Call_order_send req,
                    Log ERROR (Failed_to_move_stop_loss (ticket p) (retcode result))], Inr ())
             else ([Call_order_send req, Log INFO (Stop_loss_moved (ticket p))], Inr ()))
      else ([], Inr ()))"

section \<open>The main loop\<close>

text \<open>The \<^verbatim>\<open>for\<close> loop over the open positions; an exception ends it.\<close>

fun adjust_positions :: "terminal \<Rightarrow> position list \<Rightarrow> unit io" where
  "adjust_positions t [] = ([], Inr ())"
| "adjust_positions t (p # ps) = io_bind (adjust_stop_loss t p) (\<lambda>_. adjust_positions t ps)"

text \<open>
  How the \<^verbatim>\<open>try\<close> block of one pass ends when nothing is raised: at \<^verbatim>\<open>continue\<close>, or by
  running to its end.
\<close>

datatype flow = Continue | Completed

definition signal_step :: "config \<Rightarrow> terminal \<Rightarrow> real \<Rightarrow> unit io" where
  "signal_step cfg t account_balance =
     io_bind check_major_news_events (\<lambda>clear.
       if clear then
         (case get_rates t (SYMBOL cfg) 200 of
            (ev, None) \<Rightarrow> (ev, Inr ())
          | (ev, Some rates_df) \<Rightarrow>
              io_bind (ev, snd (get_signals rates_df)) (\<lambda>signal.
                case signal of
                  None \<Rightarrow> ([], Inr ())
                | Some direction \<Rightarrow>
                    if direction = [] then ([], Inr ())
                    else
                      io_bind (max_open_positions t (MAX_POSITIONS cfg)) (\<lambda>room.
                        if room
                        then (fst (trade cfg t (SYMBOL cfg) direction account_balance), Inr ())
                        else ([], Inr ()))))
       else ([], Inr ()))"

definition try_body :: "config \<Rightarrow> terminal \<Rightarrow> flow io" where
  "try_body cfg t =
     (if is_within_trading_hours (now t) then
        (case account_info t of
           None \<Rightarrow> ([Call_account_info, Log ERROR Failed_to_get_account_info], Inr Continue)
         | Some info \<Rightarrow>
             io_bind ([Call_account_info], Inr (balance info)) (\<lambda>account_balance.
             io_bind (signal_step cfg t account_balance) (\<lambda>_.
             io_bind
               (case positions_get t of
                  None \<Rightarrow> ([Call_positions_get (SYMBOL cfg)], Inl TypeError)
                | Some positions \<Rightarrow>
                    io_bind ([Call_positions_get (SYMBOL cfg)], Inr ())
                      (\<lambda>_. adjust_positions t positions))
               (\<lambda>_. ([Sleep (60 * 60 * 4)], Inr Completed)))))
      else ([Sleep (60 * 60 * 4)], Inr Completed))"

text \<open>
  One pass of \<^verbatim>\<open>while True\<close>: the \<^verbatim>\<open>try\<close> block, and the handler that logs an exception
  and sleeps for a minute.
\<close>

definition main_cycle :: "config \<Rightarrow> terminal \<Rightarrow> event list" where
  "main_cycle cfg t =
     (case try_body cfg t of
        (ev, Inl e) \<Rightarrow> ev @ [Log ERROR (Main_loop_error e), Sleep 60]
      | (ev, Inr _) \<Rightarrow> ev)"

text \<open>
  The loop of \<^verbatim>\<open>main\<close>, entered once the connection is initialised, never ends by
  itself. \<open>main_loop cfg ts\<close> is the trace of its first \<open>length ts\<close> passes, where the
  terminal answers pass \<open>i\<close> as \<open>ts ! i\<close>.
\<close>

fun main_loop :: "config \<Rightarrow> terminal list \<Rightarrow> event list" where
  "main_loop cfg [] = []"
| "main_loop cfg (t # ts) = main_cycle cfg t @ main_loop cfg ts"

text \<open>
  The time of day as claim C9 reads it: a point on the clock, in microseconds since
  midnight, for a time whose fields are in range.
\<close>

definition valid_time :: "time_of_day \<Rightarrow> bool" where
  "valid_time x \<longleftrightarrow> hour x < 24 \<and> minute x < 60 \<and> second x < 60 \<and> microsecond x < 1000000"

definition microseconds_since_midnight :: "time_of_day \<Rightarrow> nat" where
  "microseconds_since_midnight x =
     ((hour x * 60 + minute x) * 60 + second x) * 1000000 + microsecond x"

section \<open>A concrete terminal\<close>

text \<open>
  A terminal used to evaluate the model on a concrete input: it answers a request for
  \<open>n\<close> rates with \<open>n\<close> equal bars, knows no account and accepts every order.
\<close>

definition flat_rate :: rate where
  "flat_rate =
     \<lparr>rate_time = 0, rate_open = 1, rate_high = 1, rate_low = 1, rate_close = 1,
      tick_volume = 0, spread = 0, real_volume = 0\<rparr>"

definition example_terminal :: terminal where
  "example_terminal =
     \<lparr>now = dt_time 9 30, account_info = None,
      copy_rates_from_pos = (\<lambda>symbol start n. Some (replicate n flat_rate)),
      positions_get_symbols = Some [], symbol_info_tick = Some \<lparr>ask = 1, bid = 1\<rparr>,
      order_send = (\<lambda>r. Some \<lparr>retcode = 10009, comment = ''done''\<rparr>),
      positions_get = Some []\<rparr>"

section \<open>Properties of the moving average\<close>

lemma length_ewm_from: "length (ewm_from \<alpha> prev xs) = length xs"
  by (induction xs arbitrary: prev) (simp_all add: Let_def)

lemma length_ewm_mean: "length (ewm_mean \<alpha> xs) = length xs"
  by (cases xs) (simp_all add: length_ewm_from)

lemma ewm_from_first:
  "xs \<noteq> [] \<Longrightarrow> ewm_from \<alpha> prev xs ! 0 = (1 - \<alpha>) * prev + \<alpha> * xs ! 0"
  by (cases xs) (simp_all add: Let_def)

lemma ewm_from_step:
  "Suc t < length xs \<Longrightarrow>
     ewm_from \<alpha> prev xs ! Suc t = (1 - \<alpha>) * ewm_from \<alpha> prev xs ! t + \<alpha> * xs ! Suc t"
proof (induction xs arbitrary: prev t)
  case Nil
  then show ?case by simp
next
  case (Cons x xs)
  show ?case
  proof (cases t)
    case 0
    with Cons.prems have "xs \<noteq> []" by auto
    with 0 show ?thesis by (simp add: Let_def ewm_from_first)
  next
    case (Suc t')
    with Cons.prems have "Suc t' < length xs" by simp
    from Cons.IH [OF this] Suc show ?thesis by (simp add: Let_def)
  qed
qed

lemma ewm_mean_first: "xs \<noteq> [] \<Longrightarrow> ewm_mean \<alpha> xs ! 0 = xs ! 0"
  by (cases xs) simp_all

lemma ewm_mean_step:
  "Suc t < length xs \<Longrightarrow>
     ewm_mean \<alpha> xs ! Suc t = (1 - \<alpha>) * ewm_mean \<alpha> xs ! t + \<alpha> * xs ! Suc t"
proof (cases xs)
  case Nil
  then show "Suc t < length xs \<Longrightarrow> ?thesis" by simp
next
  case (Cons x ys)
  assume lt: "Suc t < length xs"
  show ?thesis
  proof (cases t)
    case 0
    with lt Cons have "ys \<noteq> []" by auto
    with 0 Cons show ?thesis by (simp add: ewm_from_first)
  next
    case (Suc t')
    with lt Cons have "Suc t' < length ys" by simp
    from ewm_from_step [OF this] Suc Cons show ?thesis by simp
  qed
qed

lemma ewm_mean_recurrence:
  "t < length xs \<Longrightarrow> ewm_mean \<alpha> xs ! t = ema_recurrence \<alpha> xs t"
proof (induction t)
  case 0
  then show ?case by (simp add: ewm_mean_first)
next
  case (Suc t)
  then show ?case by (simp add: ewm_mean_step algebra_simps)
qed

section \<open>Properties of the signal calculator\<close>

lemma iloc_last: "s \<noteq> [] \<Longrightarrow> iloc s (- 1) = Inr (s ! (length s - 1))"
  by (cases s) (simp_all add: iloc_def nat_diff_distrib)

lemma iloc_prev: "2 \<le> length s \<Longrightarrow> iloc s (- 2) = Inr (s ! (length s - 2))"
  by (simp add: iloc_def Let_def nat_diff_distrib) 

lemma iloc_last_empty: "iloc [] (- 1) = Inl IndexError"
  by (simp add: iloc_def)

lemma iloc_prev_short: "length s < 2 \<Longrightarrow> iloc s (- 2) = Inl IndexError"
  by (simp add: iloc_def Let_def)

lemma calculate_ema_close:
  "df ''close'' = Some c \<Longrightarrow> 1 \<le> w \<Longrightarrow> calculate_ema df w = Inr (ewm_mean (span_alpha w) c)"
  by (simp add: calculate_ema_def getitem_def bind_err_def ewm_span_mean_def)

lemma get_signals_frame:
  "df ''close'' = Some c \<Longrightarrow>
     fst (get_signals df) = df(''ema_50'' \<mapsto> fast_ema c, ''ema_200'' \<mapsto> slow_ema c)"
  by (simp add: get_signals_def calculate_ema_close fast_ema_def slow_ema_def Let_def)

lemma get_signals_empty:
  "df ''close'' = Some [] \<Longrightarrow> snd (get_signals df) = Inl IndexError"
  by (simp add: get_signals_def calculate_ema_close Let_def at_row_def getitem_def bind_err_def
      compare_def py_and_def iloc_last_empty)

lemma get_signals_one_bar:
  "df ''close'' = Some [x] \<Longrightarrow> snd (get_signals df) = Inr None"
  by (simp add: get_signals_def calculate_ema_close Let_def at_row_def getitem_def bind_err_def
      compare_def py_and_def iloc_def)

lemma get_signals_bars:
  assumes "df ''close'' = Some c" and "2 \<le> length c"
  shows "snd (get_signals df) =
           Inr (if fast_ema c ! (length c - 1) > slow_ema c ! (length c - 1) \<and>
                   fast_ema c ! (length c - 2) \<le> slow_ema c ! (length c - 2)
                then Some ''buy''
                else if fast_ema c ! (length c - 1) < slow_ema c ! (length c - 1) \<and>
                        fast_ema c ! (length c - 2) \<ge> slow_ema c ! (length c - 2)
                then Some ''sell'' else None)"
proof -
  have ne: "ewm_mean \<alpha> c \<noteq> []" for \<alpha>
    using assms(2) length_ewm_mean [of \<alpha> c] by auto
  have two: "2 \<le> length (ewm_mean \<alpha> c)" for \<alpha>
    using assms(2) by (simp add: length_ewm_mean)
  show ?thesis
    using assms(1)
    by (simp add: get_signals_def calculate_ema_close Let_def at_row_def getitem_def bind_err_def
      compare_def py_and_def iloc_last [OF ne] iloc_prev [OF two] length_ewm_mean
      fast_ema_def slow_ema_def)
qed



lemma ema_recurrence_le_price:
  assumes "sorted c" and "0 \<le> b" and "b \<le> 1"
  shows "t < length c \<Longrightarrow> ema_recurrence b c t \<le> c ! t"
proof (induction t)
  case 0
  then show ?case by simp
next
  case (Suc t)
  then have ih: "ema_recurrence b c t \<le> c ! t" by simp
  have up: "c ! t \<le> c ! Suc t"
    using assms(1) Suc.prems by (simp add: sorted_iff_nth_mono)
  have "(1 - b) * ema_recurrence b c t \<le> (1 - b) * c ! Suc t"
    using ih up assms(3) by (intro mult_left_mono) auto
  then show ?case by (simp add: algebra_simps)
qed

lemma gap_step:
  "ema_recurrence a c (Suc t) - ema_recurrence b c (Suc t) =
     (a - b) * (c ! Suc t - ema_recurrence b c t) +
     (1 - a) * (ema_recurrence a c t - ema_recurrence b c t)"
  by (simp add: algebra_simps)

lemma gap_grows:
  assumes "sorted c" and "0 \<le> b" and "b \<le> a" and "a < 1" and "Suc t < length c"
  shows "(1 - a) * (ema_recurrence a c t - ema_recurrence b c t)
           \<le> ema_recurrence a c (Suc t) - ema_recurrence b c (Suc t)"
proof -
  have "ema_recurrence b c t \<le> c ! t"
    using assms by (intro ema_recurrence_le_price) auto
  moreover have "c ! t \<le> c ! Suc t"
    using assms(1,5) by (simp add: sorted_iff_nth_mono)
  ultimately have "0 \<le> (a - b) * (c ! Suc t - ema_recurrence b c t)"
    using assms(3) by (intro mult_nonneg_nonneg) auto
  then show ?thesis unfolding gap_step by linarith
qed

lemma gap_nonneg:
  assumes "sorted c" and "0 \<le> b" and "b \<le> a" and "a < 1"
  shows "t < length c \<Longrightarrow> ema_recurrence b c t \<le> ema_recurrence a c t"
proof (induction t)
  case 0
  then show ?case by simp
next
  case (Suc t)
  then have "0 \<le> (1 - a) * (ema_recurrence a c t - ema_recurrence b c t)"
    using assms(4) by (intro mult_nonneg_nonneg) auto
  with gap_grows [OF assms Suc.prems] show ?case by linarith
qed


lemma ema_recurrence_uminus:
  "t < length c \<Longrightarrow> ema_recurrence a (map uminus c) t = - ema_recurrence a c t"
  by (induction t) (simp_all add: algebra_simps)

lemma sorted_uminus: "sorted (map uminus c) = nonincreasing (c :: real list)"
  by (simp add: nonincreasing_def sorted_wrt_map)

lemma fast_ema_nth: "t < length c \<Longrightarrow> fast_ema c ! t = ema_recurrence (span_alpha 50) c t"
  by (simp add: fast_ema_def ewm_mean_recurrence)

lemma slow_ema_nth: "t < length c \<Longrightarrow> slow_ema c ! t = ema_recurrence (span_alpha 200) c t"
  by (simp add: slow_ema_def ewm_mean_recurrence)

lemma alpha_order:
  "0 \<le> span_alpha 200" "span_alpha 200 \<le> span_alpha 50" "span_alpha 50 < 1"
  by (simp_all add: span_alpha_def)



lemma rising_never_below:
  assumes "sorted c" and "t < length c"
  shows "slow_ema c ! t \<le> fast_ema c ! t"
  using gap_nonneg [OF assms(1) alpha_order assms(2)] assms(2)
  by (simp add: fast_ema_nth slow_ema_nth)








lemma get_signals_no_close:
  "df ''close'' = None \<Longrightarrow> get_signals df = (df, Inl KeyError)"
  by (simp add: get_signals_def calculate_ema_def getitem_def bind_err_def)

lemma get_signals_result_of_close:
  "df ''close'' = Some c \<Longrightarrow>
     snd (get_signals df) = snd (get_signals [''close'' \<mapsto> c])"
proof -
  assume c: "df ''close'' = Some c"
  consider "c = []" | x where "c = [x]" | "2 \<le> length c"
    by (cases c rule: list.exhaust; cases "tl c") auto
  then show ?thesis
  proof cases
    case 1
    with c show ?thesis by (simp add: get_signals_empty)
  next
    case 2
    with c show ?thesis by (simp add: get_signals_one_bar)
  next
    case 3
    have "[''close'' \<mapsto> c] ''close'' = Some c" by simp
    from get_signals_bars [of df c, OF c 3] get_signals_bars [of "[''close'' \<mapsto> c]" c, OF this 3]
    show ?thesis by simp
  qed
qed

lemma get_signals_same_close:
  assumes "df ''close'' = df' ''close''"
  shows "snd (get_signals df) = snd (get_signals df')"
proof (cases "df ''close''")
  case None
  with assms show ?thesis by (simp add: get_signals_no_close)
next
  case (Some c)
  with assms have "df' ''close'' = Some c" by simp
  with Some show ?thesis
    using get_signals_result_of_close [of df c] get_signals_result_of_close [of df' c] by simp
qed

lemma get_signals_other_columns:
  "name \<noteq> ''ema_50'' \<Longrightarrow> name \<noteq> ''ema_200'' \<Longrightarrow> fst (get_signals df) name = df name"
  by (cases "df ''close''") (simp_all add: get_signals_no_close get_signals_frame)

lemma get_signals_nonempty:
  assumes "df ''close'' = Some c" and "c \<noteq> []"
  shows "\<exists>sig. snd (get_signals df) = Inr sig"
proof (cases "length c = 1")
  case True
  then obtain x where "c = [x]" by (cases c) auto
  with assms(1) show ?thesis by (simp add: get_signals_one_bar)
next
  case False
  with assms(2) have "2 \<le> length c" by (cases c; cases "tl c") auto
  from get_signals_bars [of df c, OF assms(1) this] show ?thesis by simp
qed



text \<open>
  A nondecreasing series that ends above its first price has a bar at which the fast
  average flips above the slow one; likewise for a nonincreasing series that ends below
  its first price.
\<close>

lemma flat_while_equal:
  assumes "sorted c" and "\<forall>t<length c. fast_ema c ! t \<le> slow_ema c ! t"
  shows "t < length c \<Longrightarrow> c ! t = c ! 0 \<and> slow_ema c ! t = c ! 0"
proof (induction t)
  case 0
  then show ?case by (simp add: slow_ema_def ewm_mean_first)
next
  case (Suc t)
  then have ih: "c ! t = c ! 0" "slow_ema c ! t = c ! 0" and t: "t < length c" by simp_all
  have eq: "fast_ema c ! u = slow_ema c ! u" if "u < length c" for u
    using assms(2) rising_never_below [OF assms(1) that] that by (simp add: order_antisym)
  have "ema_recurrence (span_alpha 50) c (Suc t) - ema_recurrence (span_alpha 200) c (Suc t) = 0"
    using eq [OF Suc.prems] Suc.prems by (simp add: fast_ema_nth slow_ema_nth)
  moreover have "ema_recurrence (span_alpha 50) c t - ema_recurrence (span_alpha 200) c t = 0"
    using eq [OF t] t by (simp add: fast_ema_nth slow_ema_nth)
  ultimately have "(span_alpha 50 - span_alpha 200) * (c ! Suc t - ema_recurrence (span_alpha 200) c t) = 0"
    unfolding gap_step by simp
  moreover have "span_alpha 50 - span_alpha 200 \<noteq> 0" by (simp add: span_alpha_def)
  ultimately have "c ! Suc t = ema_recurrence (span_alpha 200) c t" by simp
  with ih(2) t have next_price: "c ! Suc t = c ! 0" by (simp add: slow_ema_nth)
  have "slow_ema c ! Suc t = (1 - span_alpha 200) * slow_ema c ! t + span_alpha 200 * c ! Suc t"
    using Suc.prems by (simp add: slow_ema_def ewm_mean_step)
  with ih(2) next_price show ?case by (simp add: algebra_simps)
qed

lemma rising_series_has_flip:
  assumes "sorted c" and "c \<noteq> []" and "c ! 0 < last c"
  shows "\<exists>k. flips_above_at c k"
proof -
  have "\<exists>t<length c. slow_ema c ! t < fast_ema c ! t"
  proof (rule ccontr)
    assume "\<not> ?thesis"
    then have "\<forall>t<length c. fast_ema c ! t \<le> slow_ema c ! t" by (meson not_less)
    from flat_while_equal [OF assms(1) this, of "length c - 1"] assms(2)
    have "last c = c ! 0" by (simp add: last_conv_nth)
    with assms(3) show False by simp
  qed
  then obtain t where t: "t < length c \<and> slow_ema c ! t < fast_ema c ! t" by blast
  define k where "k = (LEAST t. t < length c \<and> slow_ema c ! t < fast_ema c ! t)"
  have k: "k < length c \<and> slow_ema c ! k < fast_ema c ! k"
    unfolding k_def using t by (rule LeastI)
  have "fast_ema c ! j \<le> slow_ema c ! j" if "j < k" for j
  proof -
    from that have "\<not> (j < length c \<and> slow_ema c ! j < fast_ema c ! j)"
      unfolding k_def by (rule not_less_Least)
    with that k show ?thesis by simp
  qed
  with k show ?thesis by (auto simp: flips_above_at_def list_all_iff)
qed

lemma flips_uminus: "flips_above_at (map uminus c) k = flips_below_at c k"
proof -
  have "fast_ema (map uminus c) ! t = - fast_ema c ! t"
    and "slow_ema (map uminus c) ! t = - slow_ema c ! t" if "t < length c" for t
    using that by (simp_all add: fast_ema_nth slow_ema_nth ema_recurrence_uminus)
  then show ?thesis
    by (auto simp: flips_above_at_def flips_below_at_def list_all_iff)
qed

lemma falling_series_has_flip:
  assumes "nonincreasing c" and "c \<noteq> []" and "last c < c ! 0"
  shows "\<exists>k. flips_below_at c k"
proof -
  have "sorted (map uminus c)" using assms(1) by (simp add: sorted_uminus)
  moreover have "map uminus c \<noteq> []" using assms(2) by simp
  moreover have "map uminus c ! 0 < last (map uminus c)"
    using assms(2,3) by (simp add: last_map)
  ultimately have "\<exists>k. flips_above_at (map uminus c) k"
    by (rule rising_series_has_flip)
  then show ?thesis by (simp add: flips_uminus)
qed

section \<open>Properties of the control loop's operations\<close>

lemma DataFrame_close: "DataFrame rates ''close'' = Some (map rate_close rates)"
  by (simp add: DataFrame_def)

lemma get_rates_Some:
  "snd (get_rates t symbol n) = Some df \<Longrightarrow>
     \<exists>rates. copy_rates_from_pos t symbol 0 n = Some rates \<and> rates \<noteq> [] \<and> df = DataFrame rates"
  by (auto simp: get_rates_def split: option.splits if_splits)

lemma lex_le_iff:
  fixes x y x' y' m :: nat
  assumes "y < m" and "y' < m"
  shows "x * m + y \<le> x' * m + y' \<longleftrightarrow> x < x' \<or> (x = x' \<and> y \<le> y')"
proof (cases x x' rule: linorder_cases)
  case less
  then have "Suc x * m \<le> x' * m" by (intro mult_le_mono1) simp
  with assms less show ?thesis by simp
next
  case equal
  then show ?thesis by simp
next
  case greater
  then have "Suc x' * m \<le> x * m" by (intro mult_le_mono1) simp
  with assms greater show ?thesis by simp
qed

lemma lex_less_iff:
  fixes x y x' y' m :: nat
  assumes "y < m" and "y' < m"
  shows "x * m + y < x' * m + y' \<longleftrightarrow> x < x' \<or> (x = x' \<and> y < y')"
proof -
  have "x * m + y < x' * m + y' \<longleftrightarrow> \<not> (x' * m + y' \<le> x * m + y)"
    by auto
  also have "\<dots> \<longleftrightarrow> \<not> (x' < x \<or> (x' = x \<and> y' \<le> y))"
    by (simp only: lex_le_iff [OF assms(2) assms(1)])
  also have "\<dots> \<longleftrightarrow> x < x' \<or> (x = x' \<and> y < y')"
    by auto
  finally show ?thesis .
qed

lemma lex_eq_iff:
  fixes x y x' y' m :: nat
  assumes "y < m" and "y' < m"
  shows "x * m + y = x' * m + y' \<longleftrightarrow> x = x' \<and> y = y'"
proof -
  have "x * m + y = x' * m + y' \<longleftrightarrow>
          x * m + y \<le> x' * m + y' \<and> x' * m + y' \<le> x * m + y"
    by auto
  also have "\<dots> \<longleftrightarrow> (x < x' \<or> (x = x' \<and> y \<le> y')) \<and> (x' < x \<or> (x' = x \<and> y' \<le> y))"
    by (simp only: lex_le_iff [OF assms] lex_le_iff [OF assms(2) assms(1)])
  also have "\<dots> \<longleftrightarrow> x = x' \<and> y = y'"
    by auto
  finally show ?thesis .
qed

lemma time_le_microseconds:
  assumes "valid_time a" and "valid_time b"
  shows "time_le a b \<longleftrightarrow> microseconds_since_midnight a \<le> microseconds_since_midnight b"
proof -
  have us: "microsecond a < 1000000" "microsecond b < 1000000"
    and sec: "second a < 60" "second b < 60" and mins: "minute a < 60" "minute b < 60"
    using assms by (simp_all add: valid_time_def)
  define ma mb where "ma = hour a * 60 + minute a" and "mb = hour b * 60 + minute b"
  define sa sb where "sa = ma * 60 + second a" and "sb = mb * 60 + second b"
  have m_less: "ma < mb \<longleftrightarrow> hour a < hour b \<or> (hour a = hour b \<and> minute a < minute b)"
    unfolding ma_def mb_def by (rule lex_less_iff [OF mins])
  have m_eq: "ma = mb \<longleftrightarrow> hour a = hour b \<and> minute a = minute b"
    unfolding ma_def mb_def by (rule lex_eq_iff [OF mins])
  have s_less: "sa < sb \<longleftrightarrow> ma < mb \<or> (ma = mb \<and> second a < second b)"
    unfolding sa_def sb_def by (rule lex_less_iff [OF sec])
  have s_eq: "sa = sb \<longleftrightarrow> ma = mb \<and> second a = second b"
    unfolding sa_def sb_def by (rule lex_eq_iff [OF sec])
  have "sa * 1000000 + microsecond a \<le> sb * 1000000 + microsecond b
          \<longleftrightarrow> sa < sb \<or> (sa = sb \<and> microsecond a \<le> microsecond b)"
    by (rule lex_le_iff [OF us])
  also have "\<dots> \<longleftrightarrow> time_le a b"
    unfolding s_less s_eq m_less m_eq time_le_def by blast
  finally show ?thesis
    by (simp only: microseconds_since_midnight_def sa_def sb_def ma_def mb_def)
qed

section \<open>Claims\<close>

text \<open>
  C1. For a frame whose \<^verbatim>\<open>close\<close> column has at least 2 bars, \<^verbatim>\<open>get_signals\<close> returns
  \<^verbatim>\<open>'buy'\<close> exactly when the fast (50) EMA is strictly above the slow (200) EMA at the
  last bar and was below or equal at the bar before; \<^verbatim>\<open>'sell'\<close> exactly when it is
  strictly below at the last bar and was above or equal at the bar before; and \<^verbatim>\<open>None\<close>
  exactly in every other case. It never raises on such a frame.
\<close>

theorem get_signals_crossover:
  assumes "df ''close'' = Some c" and "2 \<le> length c"
  shows "(snd (get_signals df) = Inr (Some ''buy'') \<longleftrightarrow>
            fast_ema c ! (length c - 1) > slow_ema c ! (length c - 1) \<and>
            fast_ema c ! (length c - 2) \<le> slow_ema c ! (length c - 2)) \<and>
         (snd (get_signals df) = Inr (Some ''sell'') \<longleftrightarrow>
            fast_ema c ! (length c - 1) < slow_ema c ! (length c - 1) \<and>
            fast_ema c ! (length c - 2) \<ge> slow_ema c ! (length c - 2)) \<and>
         (snd (get_signals df) = Inr None \<longleftrightarrow>
            \<not> (fast_ema c ! (length c - 1) > slow_ema c ! (length c - 1) \<and>
               fast_ema c ! (length c - 2) \<le> slow_ema c ! (length c - 2)) \<and>
            \<not> (fast_ema c ! (length c - 1) < slow_ema c ! (length c - 1) \<and>
               fast_ema c ! (length c - 2) \<ge> slow_ema c ! (length c - 2)))"
  using get_signals_bars [of df c, OF assms] by auto

theorem get_signals_crossover_witness:
  "[''close'' \<mapsto> [1, 2 :: real]] ''close'' = Some [1, 2] \<and> 2 \<le> length [1, 2 :: real] \<and>
   snd (get_signals [''close'' \<mapsto> [1, 2]]) = Inr (Some ''buy'') \<and>
   snd (get_signals [''close'' \<mapsto> [2, 1]]) = Inr (Some ''sell'') \<and>
   snd (get_signals [''close'' \<mapsto> [1, 2, 3]]) = Inr None"
  using get_signals_crossover [of "[''close'' \<mapsto> [1, 2]]" "[1, 2]"]
    get_signals_crossover [of "[''close'' \<mapsto> [2, 1]]" "[2, 1]"]
    get_signals_crossover [of "[''close'' \<mapsto> [1, 2, 3]]" "[1, 2, 3]"]
  by (simp add: fast_ema_def slow_ema_def span_alpha_def Let_def)

text \<open>
  C2. For every window \<open>w \<ge> 1\<close> and every frame whose \<^verbatim>\<open>close\<close> column is a non-empty
  sequence \<open>c\<close>, \<^verbatim>\<open>calculate_ema\<close> returns (without raising) a series as long as \<open>c\<close>
  whose value at every bar \<open>t\<close> is the one of the recurrence \<open>e\<^sub>0 = c\<^sub>0\<close>,
  \<open>e\<^sub>t = a * c\<^sub>t + (1 - a) * e\<^sub>t\<^sub>-\<^sub>1\<close> with \<open>a = 2 / (w + 1)\<close>.
\<close>

theorem calculate_ema_recurrence:
  assumes "1 \<le> w" and "c \<noteq> []" and "df ''close'' = Some c"
  shows "\<exists>es. calculate_ema df w = Inr es \<and> length es = length c \<and>
           (\<forall>t<length c. es ! t = ema_recurrence (2 / (w + 1)) c t)"
  using assms
  by (simp add: calculate_ema_def getitem_def bind_err_def ewm_span_mean_def span_alpha_def
      length_ewm_mean ewm_mean_recurrence)

theorem calculate_ema_recurrence_witness:
  "(1::real) \<le> 3 \<and> [10, 20, 40 :: real] \<noteq> [] \<and>
   calculate_ema [''close'' \<mapsto> [10, 20, 40]] 3 = Inr [10, 15, 55 / 2] \<and>
   ema_recurrence (2 / (3 + 1)) [10, 20, 40] 2 = 55 / 2"
  using calculate_ema_recurrence [of 3 "[10, 20, 40]" "[''close'' \<mapsto> [10, 20, 40]]"]
  by (simp add: calculate_ema_def getitem_def bind_err_def ewm_span_mean_def span_alpha_def
      Let_def numeral_2_eq_2)



text \<open>
  C4, as the code has it. \<^verbatim>\<open>get_signals\<close> has no 201-bar requirement: it raises
  (IndexError) only for an empty \<^verbatim>\<open>close\<close> column, returns \<^verbatim>\<open>None\<close> for a single bar and
  returns a signal without raising for every non-empty column. The loop's fetch asks for
  200 bars: with a terminal that answers with at most the number of bars asked for, the
  frame \<^verbatim>\<open>get_rates\<close> passes on has between 1 and 200 bars, and \<^verbatim>\<open>get_signals\<close> returns a
  signal for it.
\<close>

theorem signal_needs_one_bar:
  "(df ''close'' = Some [] \<longrightarrow> snd (get_signals df) = Inl IndexError) \<and>
   (df ''close'' = Some [x] \<longrightarrow> snd (get_signals df) = Inr None) \<and>
   (df ''close'' = Some c \<and> c \<noteq> [] \<longrightarrow> (\<exists>sig. snd (get_signals df) = Inr sig)) \<and>
   ((\<forall>rates. copy_rates_from_pos t symbol 0 200 = Some rates \<longrightarrow> length rates \<le> 200) \<and>
      snd (get_rates t symbol 200) = Some rates_df \<longrightarrow>
      (\<exists>bars. rates_df ''close'' = Some bars \<and> 1 \<le> length bars \<and> length bars \<le> 200 \<and>
         (\<exists>sig. snd (get_signals rates_df) = Inr sig)))"
proof -
  have fetch: "\<exists>bars. rates_df ''close'' = Some bars \<and> 1 \<le> length bars \<and> length bars \<le> 200 \<and>
         (\<exists>sig. snd (get_signals rates_df) = Inr sig)"
    if contract: "\<forall>rates. copy_rates_from_pos t symbol 0 200 = Some rates \<longrightarrow> length rates \<le> 200"
      and got: "snd (get_rates t symbol 200) = Some rates_df"
  proof -
    from get_rates_Some [OF got] obtain rates
      where r: "copy_rates_from_pos t symbol 0 200 = Some rates" "rates \<noteq> []"
        "rates_df = DataFrame rates"
      by blast
    from contract r(1) have "length rates \<le> 200" by blast
    moreover from r(2) have "1 \<le> length rates" by (cases rates) auto
    moreover have "\<exists>sig. snd (get_signals rates_df) = Inr sig"
      using r(2,3) by (intro get_signals_nonempty [of _ "map rate_close rates"])
        (simp_all add: DataFrame_close)
    ultimately show ?thesis using r(3) by (simp add: DataFrame_close)
  qed
  show ?thesis
    using fetch get_signals_nonempty [of df c]
    by (simp add: get_signals_empty get_signals_one_bar)
qed

theorem signal_needs_one_bar_witness:
  "snd (get_signals [''close'' \<mapsto> []]) = Inl IndexError \<and>
   snd (get_signals [''close'' \<mapsto> [5]]) = Inr None \<and>
   (\<exists>sig. snd (get_signals [''close'' \<mapsto> [1, 2]]) = Inr sig) \<and>
   snd (get_rates example_terminal ''EURUSD'' 200) = Some (DataFrame (replicate 200 flat_rate)) \<and>
   (\<exists>bars. DataFrame (replicate 200 flat_rate) ''close'' = Some bars \<and> 1 \<le> length bars \<and>
      length bars \<le> 200 \<and>
      (\<exists>sig. snd (get_signals (DataFrame (replicate 200 flat_rate))) = Inr sig))"
proof -
  have got: "snd (get_rates example_terminal ''EURUSD'' 200) = Some (DataFrame (replicate 200 flat_rate))"
    by (simp add: get_rates_def example_terminal_def)
  have contract: "\<forall>rates. copy_rates_from_pos example_terminal ''EURUSD'' 0 200 = Some rates
      \<longrightarrow> length rates \<le> 200"
    by (auto simp: example_terminal_def)
  show ?thesis
    using got contract
      signal_needs_one_bar [of "[''close'' \<mapsto> []]" 5 "[1, 2]" example_terminal "''EURUSD''"
        "DataFrame (replicate 200 flat_rate)"]
      signal_needs_one_bar [of "[''close'' \<mapsto> [5]]" 5 "[1, 2]" example_terminal "''EURUSD''"
        "DataFrame (replicate 200 flat_rate)"]
      signal_needs_one_bar [of "[''close'' \<mapsto> [1, 2]]" 5 "[1, 2]" example_terminal "''EURUSD''"
        "DataFrame (replicate 200 flat_rate)"]
    by simp
qed

text \<open>
  C4 as stated fails: a close column of 2 bars, fewer than 201, yields the valid signal
  \<^verbatim>\<open>'buy'\<close>; and a terminal that delivers every bar asked for is asked for 200, so the
  fetched frame has 200 bars, fewer than 201.
\<close>

theorem signal_from_fewer_than_201_bars:
  "length [1, 2 :: real] < 201 \<and>
   snd (get_signals [''close'' \<mapsto> [1, 2]]) = Inr (Some ''buy'') \<and>
   snd (get_rates example_terminal ''EURUSD'' 200) = Some (DataFrame (replicate 200 flat_rate)) \<and>
   DataFrame (replicate 200 flat_rate) ''close'' = Some (replicate 200 1) \<and>
   length (replicate 200 (1 :: real)) < 201"
proof -
  have "[''close'' \<mapsto> [1, 2 :: real]] ''close'' = Some [1, 2]" by simp
  from get_signals_bars [of "[''close'' \<mapsto> [1, 2]]" "[1, 2]", OF this]
  have "snd (get_signals [''close'' \<mapsto> [1, 2]]) = Inr (Some ''buy'')"
    by (simp add: fast_ema_def slow_ema_def span_alpha_def Let_def)
  then show ?thesis
    by (simp add: get_rates_def example_terminal_def DataFrame_close flat_rate_def)
qed

text \<open>
  C5, as the code has it. \<^verbatim>\<open>get_signals\<close> writes to the frame it is given: with a
  \<^verbatim>\<open>close\<close> column \<open>c\<close> it leaves the frame with the columns \<^verbatim>\<open>ema_50\<close> and \<^verbatim>\<open>ema_200\<close>
  set to the two averages of \<open>c\<close>. Every other column, \<^verbatim>\<open>close\<close> included, is unchanged.
  The returned signal depends on the \<^verbatim>\<open>close\<close> column only, so frames with equal
  \<^verbatim>\<open>close\<close> columns give equal signals, and evaluating again on the frame the first
  call left behind gives the same signal.
\<close>

theorem get_signals_frame_effect:
  "(df ''close'' = Some c \<longrightarrow>
      fst (get_signals df) = df(''ema_50'' \<mapsto> fast_ema c, ''ema_200'' \<mapsto> slow_ema c)) \<and>
   (\<forall>name. name \<noteq> ''ema_50'' \<and> name \<noteq> ''ema_200'' \<longrightarrow> fst (get_signals df) name = df name) \<and>
   (df ''close'' = df' ''close'' \<longrightarrow> snd (get_signals df) = snd (get_signals df')) \<and>
   snd (get_signals (fst (get_signals df))) = snd (get_signals df)"
proof -
  have "fst (get_signals df) ''close'' = df ''close''"
    by (simp add: get_signals_other_columns)
  then have "snd (get_signals (fst (get_signals df))) = snd (get_signals df)"
    by (rule get_signals_same_close)
  then show ?thesis
    using get_signals_frame [of df c] get_signals_same_close [of df df']
    by (simp add: get_signals_other_columns)
qed

theorem get_signals_frame_effect_witness:
  "fst (get_signals [''close'' \<mapsto> [1, 2], ''open'' \<mapsto> [1, 1]]) ''open'' = Some [1, 1] \<and>
   fst (get_signals [''close'' \<mapsto> [1, 2], ''open'' \<mapsto> [1, 1]]) ''close'' = Some [1, 2] \<and>
   fst (get_signals [''close'' \<mapsto> [1, 2], ''open'' \<mapsto> [1, 1]]) ''ema_50'' = Some [1, 53 / 51] \<and>
   fst (get_signals [''close'' \<mapsto> [1, 2], ''open'' \<mapsto> [1, 1]]) ''ema_200'' = Some [1, 203 / 201] \<and>
   snd (get_signals [''close'' \<mapsto> [1, 2], ''open'' \<mapsto> [1, 1]]) =
     snd (get_signals [''close'' \<mapsto> [1, 2]])"
  using get_signals_frame_effect
    [of "[''close'' \<mapsto> [1, 2], ''open'' \<mapsto> [1, 1]]" "[1, 2]" "[''close'' \<mapsto> [1, 2]]"]
  by (simp add: fast_ema_def slow_ema_def span_alpha_def Let_def)

text \<open>
  C5 as stated fails: after the call the frame is not the frame that was passed in.
\<close>

theorem get_signals_mutates_frame:
  "fst (get_signals [''close'' \<mapsto> [1, 2]]) \<noteq> [''close'' \<mapsto> [1, 2]]"
proof
  assume "fst (get_signals [''close'' \<mapsto> [1, 2]]) = [''close'' \<mapsto> [1, 2]]"
  then have "fst (get_signals [''close'' \<mapsto> [1, 2]]) ''ema_50'' = [''close'' \<mapsto> [1, 2 :: real]] ''ema_50''"
    by simp
  then show False
    by (simp add: get_signals_frame [of _ "[1, 2]"])
qed






text \<open>
  C9. For a time of day with fields in range, \<^verbatim>\<open>is_within_trading_hours\<close> is true exactly
  when the time lies between 08:00 and 12:00 on the clock, both ends included.
\<close>

theorem trading_hours_inclusive:
  assumes "valid_time x"
  shows "is_within_trading_hours x \<longleftrightarrow>
           microseconds_since_midnight (dt_time 8 0) \<le> microseconds_since_midnight x \<and>
           microseconds_since_midnight x \<le> microseconds_since_midnight (dt_time 12 0)"
proof -
  have "valid_time (dt_time 8 0)" "valid_time (dt_time 12 0)"
    by (simp_all add: valid_time_def dt_time_def)
  with assms show ?thesis
    by (simp add: is_within_trading_hours_def Let_def time_le_microseconds)
qed

theorem trading_hours_inclusive_witness:
  "valid_time (dt_time 8 0) \<and> is_within_trading_hours (dt_time 8 0) \<and>
   valid_time (dt_time 12 0) \<and> is_within_trading_hours (dt_time 12 0) \<and>
   valid_time \<lparr>hour = 7, minute = 59, second = 59, microsecond = 999999\<rparr> \<and>
   \<not> is_within_trading_hours \<lparr>hour = 7, minute = 59, second = 59, microsecond = 999999\<rparr> \<and>
   valid_time \<lparr>hour = 12, minute = 0, second = 0, microsecond = 1\<rparr> \<and>
   \<not> is_within_trading_hours \<lparr>hour = 12, minute = 0, second = 0, microsecond = 1\<rparr>"
  using trading_hours_inclusive [of "dt_time 8 0"] trading_hours_inclusive [of "dt_time 12 0"]
    trading_hours_inclusive [of "\<lparr>hour = 7, minute = 59, second = 59, microsecond = 999999\<rparr>"]
    trading_hours_inclusive [of "\<lparr>hour = 12, minute = 0, second = 0, microsecond = 1\<rparr>"]
  by (simp add: valid_time_def dt_time_def microseconds_since_midnight_def)

text \<open>
  C10. If, during trading hours, the terminal has no account information, the pass of
  the loop consists of the account query and the error log line only: no sleep of either
  length, no query of the open positions and no request are part of it, and the next
  pass follows at once.
\<close>

theorem account_info_failure_restarts:
  assumes "is_within_trading_hours (now t)" and "account_info t = None"
  shows "main_cycle cfg t = [Call_account_info, Log ERROR Failed_to_get_account_info] \<and>
         main_loop cfg (t # ts) =
           [Call_account_info, Log ERROR Failed_to_get_account_info] @ main_loop cfg ts \<and>
         (\<forall>n. Sleep n \<notin> set (main_cycle cfg t)) \<and>
         (\<forall>s. Call_positions_get s \<notin> set (main_cycle cfg t)) \<and>
         requests_sent (main_cycle cfg t) = []"
  using assms by (simp add: main_cycle_def try_body_def requests_sent_def)

theorem account_info_failure_restarts_witness:
  "is_within_trading_hours (now example_terminal) \<and> account_info example_terminal = None \<and>
   main_loop default_config [example_terminal, example_terminal] =
     [Call_account_info, Log ERROR Failed_to_get_account_info,
      Call_account_info, Log ERROR Failed_to_get_account_info]"
  using account_info_failure_restarts [of example_terminal default_config "[example_terminal]"]
    account_info_failure_restarts [of example_terminal default_config "[]"]
  by (simp add: example_terminal_def is_within_trading_hours_def time_le_def dt_time_def Let_def)

end
